theory Spec2Isabelle
  imports Main
begin

section \<open>Time: instants, dates and durations\<close>

text \<open>
  The cog works with timezone-aware \<^verbatim>\<open>datetime\<close> values in UTC
  (\<^verbatim>\<open>datetime.datetime.now(pytz.UTC)\<close>, \<^verbatim>\<open>message.created_at\<close>, and
  \<^verbatim>\<open>last_post_time\<close> read back with \<^verbatim>\<open>fromisoformat\<close> from a string written by
  \<^verbatim>\<open>isoformat()\<close> of such a value). An instant is the number of microseconds since
  1970-01-01T00:00:00 UTC, a \<^verbatim>\<open>datetime.date\<close> is the number of days since 1970-01-01, and
  a \<^verbatim>\<open>timedelta\<close> is a number of microseconds. Python keeps all three within the years
  1 to 9999; that bound is not part of the model.
\<close>

type_synonym instant = int
type_synonym date = int
type_synonym timedelta = int

definition usec_per_second :: int where
  "usec_per_second = 1000000"

definition usec_per_day :: int where
  "usec_per_day = 86400 * usec_per_second"

text \<open>\<^verbatim>\<open>dt.date()\<close> of a UTC datetime.\<close>

definition date_of :: "instant \<Rightarrow> date" where
  "date_of t = t div usec_per_day"

text \<open>The wall-clock part of a UTC datetime, in microseconds since midnight.\<close>

definition time_of_day :: "instant \<Rightarrow> int" where
  "time_of_day t = t mod usec_per_day"

text \<open>\<^verbatim>\<open>dt.hour\<close> and \<^verbatim>\<open>dt.minute\<close>.\<close>

definition hour :: "instant \<Rightarrow> int" where
  "hour t = time_of_day t div (3600 * usec_per_second)"

definition minute :: "instant \<Rightarrow> int" where
  "minute t = (time_of_day t div (60 * usec_per_second)) mod 60"

text \<open>
  \<^verbatim>\<open>dt.replace(hour=h, minute=m, second=s, microsecond=us)\<close>: the same calendar date, the
  given wall-clock time.
\<close>

definition replace_time :: "instant \<Rightarrow> int \<Rightarrow> int \<Rightarrow> int \<Rightarrow> int \<Rightarrow> instant" where
  "replace_time t h m s us =
     date_of t * usec_per_day + ((h * 60 + m) * 60 + s) * usec_per_second + us"

text \<open>
  The instant of wall-clock time \<open>h:m:s.us\<close> on calendar date \<open>d\<close>
  (\<^verbatim>\<open>datetime(..., hour, minute, second, microsecond, tzinfo=UTC)\<close>).
\<close>

definition at_time :: "date \<Rightarrow> int \<Rightarrow> int \<Rightarrow> int \<Rightarrow> int \<Rightarrow> instant" where
  "at_time d h m s us = d * usec_per_day + ((h * 60 + m) * 60 + s) * usec_per_second + us"

text \<open>
  \<^verbatim>\<open>td.days\<close>: Python normalises a timedelta to \<open>0 \<le> seconds < 86400\<close> and
  \<open>0 \<le> microseconds < 1000000\<close>, so \<^verbatim>\<open>days\<close> is the floor of the duration in days.
\<close>

definition days :: "timedelta \<Rightarrow> int" where
  "days td = td div usec_per_day"

text \<open>
  \<^verbatim>\<open>td.total_seconds()\<close> is the correctly rounded float of the duration in microseconds
  divided by \<open>10^6\<close>. The source compares it with the constants 300, 84600.0 (written
  \<^verbatim>\<open>23.5 * 60 * 60\<close>) and 86400 only; a duration that differs from one of them differs by a
  microsecond at least, far more than the spacing of floats of that size, so the float
  comparison agrees with the comparison of microsecond counts written here.
\<close>

definition seconds :: "int \<Rightarrow> timedelta" where
  "seconds n = n * usec_per_second"

section \<open>Clock / time attribution\<close>

text \<open>
  \<^verbatim>\<open>get_meditation_date\<close>: \<^verbatim>\<open>astimezone(pytz.UTC)\<close> keeps the instant, the cutoff is
  07:30:00.000000 on the same UTC date.
\<close>

definition get_meditation_date :: "instant \<Rightarrow> date" where
  "get_meditation_date timestamp =
     (let gmt = timestamp;
          cutoff = replace_time gmt 7 30 0 0
      in if gmt < cutoff then date_of gmt - 1 else date_of gmt)"

section \<open>Record store\<close>

text \<open>
  The table \<^verbatim>\<open>meditation_records\<close>: rows \<open>(user_id, meditation_date)\<close> in rowid order, with
  the pair as primary key, so a table holds no row twice. The date is stored as its ISO
  string, whose equality and order are those of the date.
\<close>

type_synonym row = "int \<times> date"
type_synonym meditation_records = "row list"

text \<open>
  \<^verbatim>\<open>INSERT OR REPLACE INTO meditation_records (user_id, meditation_date) VALUES (?, ?)\<close>:
  a row with the same key is deleted, then the new row is appended; no constraint error.
\<close>

definition insert_or_replace :: "meditation_records \<Rightarrow> row \<Rightarrow> meditation_records" where
  "insert_or_replace rows r = filter (\<lambda>x. x \<noteq> r) rows @ [r]"

text \<open>\<^verbatim>\<open>DELETE FROM meditation_records WHERE user_id = ? AND meditation_date = ?\<close>.\<close>

definition delete_record :: "meditation_records \<Rightarrow> row \<Rightarrow> meditation_records" where
  "delete_record rows r = filter (\<lambda>x. x \<noteq> r) rows"

text \<open>
  \<^verbatim>\<open>SELECT meditation_date FROM meditation_records WHERE user_id = ? ORDER BY meditation_date DESC\<close>.
\<close>

definition select_dates_desc :: "meditation_records \<Rightarrow> int \<Rightarrow> date list" where
  "select_dates_desc rows uid = rev (sort (map snd (filter (\<lambda>x. fst x = uid) rows)))"

section \<open>Streak calculator\<close>

text \<open>The loop \<^verbatim>\<open>for date in dates[1:]\<close> of \<^verbatim>\<open>get_streak\<close>, with its \<^verbatim>\<open>break\<close>.\<close>

fun streak_loop :: "date \<Rightarrow> int \<Rightarrow> date list \<Rightarrow> int" where
  "streak_loop expected_date streak [] = streak"
| "streak_loop expected_date streak (d # ds) =
     (if expected_date - 1 = d then streak_loop d (streak + 1) ds else streak)"

definition get_streak :: "meditation_records \<Rightarrow> int \<Rightarrow> date \<Rightarrow> int" where
  "get_streak rows uid current_date =
     (case select_dates_desc rows uid of
        [] \<Rightarrow> 0
      | d0 # rest \<Rightarrow> streak_loop d0 1 rest)"

section \<open>Settings and the posting scheduler\<close>

text \<open>
  The settings dictionary. \<^verbatim>\<open>last_post_time\<close> is held in its parsed form: the source
  stores the \<^verbatim>\<open>isoformat()\<close> string of a UTC instant and reads it with
  \<^verbatim>\<open>fromisoformat\<close>, which gives the instant back; \<open>None\<close> is the JSON null.
\<close>

record settings =
  channel_id :: "string option"
  daily_message :: string
  last_post_time :: "instant option"
  was_first_post :: bool

text \<open>\<^verbatim>\<open>should_post\<close>: the answer and the settings as the call leaves them.\<close>

definition should_post :: "settings \<Rightarrow> instant \<Rightarrow> bool \<times> settings" where
  "should_post s now =
     (let target_time = replace_time now 7 30 0 0 in
      case last_post_time s of
        None \<Rightarrow> (True, s\<lparr>was_first_post := True\<rparr>)
      | Some last_post \<Rightarrow>
          (let time_since_last_post = now - last_post in
           if was_first_post s then
             (if now \<ge> target_time \<and> last_post < target_time
              then (True, s\<lparr>was_first_post := False\<rparr>)
              else (False, s))
           else if time_since_last_post < seconds 84600 then (False, s)
           else if now \<ge> target_time \<and> last_post < target_time then (True, s)
           else if time_since_last_post > seconds 86400 then (True, s)
           else (False, s)))"

text \<open>
  What the platform and the file system do during one call of \<^verbatim>\<open>post_daily_message\<close>:
  whether \<^verbatim>\<open>self.bot.get_channel(int(channel_id))\<close> finds the channel, finds none or
  raises, whether \<^verbatim>\<open>channel.send\<close>, the two \<^verbatim>\<open>add_reaction\<close> calls and
  \<^verbatim>\<open>save_settings\<close> return or raise, and the clock reading of line 179.
\<close>

datatype lookup = Found | NotFound | LookupRaises

record world =
  channel_lookup :: lookup
  send_ok :: bool
  react1_ok :: bool
  react2_ok :: bool
  clock_at_update :: instant
  save_ok :: bool

datatype emoji = ManLotus | WomanLotus | OtherEmoji nat

datatype action =
    Send string
  | AddReaction emoji
  | SaveSettings settings
  | RemoveReaction emoji int
  | LogException

datatype exn = Exception

text \<open>
  The \<^verbatim>\<open>try\<close> block of \<^verbatim>\<open>post_daily_message\<close>: the exception that leaves it, if any, the
  settings at that moment and the calls that went through.
\<close>

definition post_daily_message_try :: "settings \<Rightarrow> world \<Rightarrow> exn option \<times> settings \<times> action list" where
  "post_daily_message_try s w =
     (case channel_lookup w of
        LookupRaises \<Rightarrow> (Some Exception, s, [])
      | NotFound \<Rightarrow> (None, s, [])
      | Found \<Rightarrow>
          if \<not> send_ok w then (Some Exception, s, [])
          else if \<not> react1_ok w then (Some Exception, s, [Send (daily_message s)])
          else if \<not> react2_ok w
            then (Some Exception, s, [Send (daily_message s), AddReaction ManLotus])
          else
            (let s' = s\<lparr>last_post_time := Some (clock_at_update w)\<rparr>;
                 sent = [Send (daily_message s), AddReaction ManLotus, AddReaction WomanLotus]
             in if \<not> save_ok w then (Some Exception, s', sent)
                else (None, s', sent @ [SaveSettings s'])))"

text \<open>\<^verbatim>\<open>post_daily_message\<close>: \<^verbatim>\<open>except Exception\<close> logs and returns.\<close>

definition post_daily_message :: "settings \<Rightarrow> world \<Rightarrow> exn option \<times> settings \<times> action list" where
  "post_daily_message s w =
     (case post_daily_message_try s w of
        (Some e, s', acts) \<Rightarrow> (None, s', acts @ [LogException])
      | (None, s', acts) \<Rightarrow> (None, s', acts))"

text \<open>
  The cog: its settings, \<^verbatim>\<open>_last_post_attempt\<close>, whether \<^verbatim>\<open>_post_lock\<close> is held, and the
  table.
\<close>

record cog =
  settings :: settings
  last_post_attempt :: "instant option"
  post_lock :: bool
  records :: meditation_records

datatype tick_outcome = LockHeld | NoChannel | RateLimited | ExactTime | Recovery | NoPostNeeded

text \<open>\<^verbatim>\<open>if not self.settings['channel_id']\<close>: null and the empty string are false.\<close>

definition channel_unset :: "settings \<Rightarrow> bool" where
  "channel_unset s = (case channel_id s of None \<Rightarrow> True | Some c \<Rightarrow> c = [])"

text \<open>The rate limit check of lines 205 to 210.\<close>

definition rate_limited :: "cog \<Rightarrow> instant \<Rightarrow> bool" where
  "rate_limited c now =
     (case last_post_attempt c of
        None \<Rightarrow> False
      | Some a \<Rightarrow> now - a < seconds 300)"

text \<open>
  The \<^verbatim>\<open>try\<close> block of one run of \<^verbatim>\<open>daily_post\<close> at clock reading \<open>now\<close> (line 201): the
  exception that leaves it, the cog afterwards (the lock released by \<^verbatim>\<open>async with\<close>), the
  branch taken and the calls made.
\<close>

definition daily_post_try ::
  "cog \<Rightarrow> instant \<Rightarrow> world \<Rightarrow> exn option \<times> cog \<times> tick_outcome \<times> action list" where
  "daily_post_try c now w =
     (if post_lock c then (None, c, LockHeld, [])
      else if channel_unset (settings c) then (None, c, NoChannel, [])
      else if rate_limited c now then (None, c, RateLimited, [])
      else
        (let c1 = c\<lparr>last_post_attempt := Some now\<rparr>;
             target_time = replace_time now 7 30 0 0
         in if hour now = hour target_time \<and> minute now = minute target_time then
              (case post_daily_message (settings c1) w of
                 (e, s', acts) \<Rightarrow> (e, c1\<lparr>settings := s'\<rparr>, ExactTime, acts))
            else
              (case should_post (settings c1) now of
                 (True, s1) \<Rightarrow>
                   (case post_daily_message s1 w of
                      (e, s', acts) \<Rightarrow> (e, c1\<lparr>settings := s'\<rparr>, Recovery, acts))
               | (False, s1) \<Rightarrow> (None, c1\<lparr>settings := s1\<rparr>, NoPostNeeded, []))))"

text \<open>\<^verbatim>\<open>daily_post\<close>: \<^verbatim>\<open>except Exception\<close> logs and returns.\<close>

definition daily_post ::
  "cog \<Rightarrow> instant \<Rightarrow> world \<Rightarrow> exn option \<times> cog \<times> tick_outcome \<times> action list" where
  "daily_post c now w =
     (case daily_post_try c now w of
        (Some e, c', out, acts) \<Rightarrow> (None, c', out, acts @ [LogException])
      | (None, c', out, acts) \<Rightarrow> (None, c', out, acts))"

text \<open>The cog after a run, the branch the run took, and whether it called \<^verbatim>\<open>channel.send\<close>.\<close>

definition cog_after :: "exn option \<times> cog \<times> tick_outcome \<times> action list \<Rightarrow> cog" where
  "cog_after r = fst (snd r)"

definition outcome :: "exn option \<times> cog \<times> tick_outcome \<times> action list \<Rightarrow> tick_outcome" where
  "outcome r = fst (snd (snd r))"

definition actions :: "exn option \<times> cog \<times> tick_outcome \<times> action list \<Rightarrow> action list" where
  "actions r = snd (snd (snd r))"

text \<open>A run went past the rate limit check when it reached line 212.\<close>

definition past_rate_limit :: "tick_outcome \<Rightarrow> bool" where
  "past_rate_limit out = (out = ExactTime \<or> out = Recovery \<or> out = NoPostNeeded)"

text \<open>A run called \<^verbatim>\<open>post_daily_message\<close>.\<close>

definition post_attempted :: "tick_outcome \<Rightarrow> bool" where
  "post_attempted out = (out = ExactTime \<or> out = Recovery)"

text \<open>Successive runs of the loop, each with its clock reading and its world.\<close>

fun run_ticks :: "cog \<Rightarrow> (instant \<times> world) list \<Rightarrow> cog" where
  "run_ticks c [] = c"
| "run_ticks c ((now, w) # ticks) = run_ticks (cog_after (daily_post c now w)) ticks"

section \<open>Reaction events\<close>

record message =
  author :: int
  content :: string
  created_at :: instant
  reactions :: "(emoji \<times> int list) list"

record payload =
  p_user_id :: int
  p_emoji :: emoji

text \<open>
  What surrounds one reaction event: the bot's own user id, the message that
  \<^verbatim>\<open>channel.fetch_message\<close> returns (\<open>None\<close> when the channel is unknown or the fetch
  raises), the clock reading of line 294, and whether \<^verbatim>\<open>message.remove_reaction\<close> returns.
  The SQLite statements are taken to succeed.
\<close>

record reaction_env =
  bot_user :: int
  fetched :: "message option"
  clock :: instant
  remove_ok :: bool

definition meditation_emojis :: "emoji list" where
  "meditation_emojis = [ManLotus, WomanLotus]"

definition on_raw_reaction_add ::
  "cog \<Rightarrow> reaction_env \<Rightarrow> payload \<Rightarrow> exn option \<times> cog \<times> action list" where
  "on_raw_reaction_add c env p =
     (if p_user_id p = bot_user env then (None, c, [])
      else case fetched env of
        None \<Rightarrow> (Some Exception, c, [])
      | Some m \<Rightarrow>
          if author m \<noteq> bot_user env \<or> content m \<noteq> daily_message (settings c)
            then (None, c, [])
          else if \<not> List.member meditation_emojis (p_emoji p) then (None, c, [])
          else
            (let message_age = clock env - created_at m in
             if days message_age > 2 then
               (if remove_ok env then (None, c, [RemoveReaction (p_emoji p) (p_user_id p)])
                else (Some Exception, c, []))
             else
               (let meditation_date = get_meditation_date (created_at m) in
                (None,
                 c\<lparr>records := insert_or_replace (records c) (p_user_id p, meditation_date)\<rparr>,
                 []))))"

text \<open>
  The loop of lines 327 to 331: the user still has a meditation reaction on the message.
\<close>

fun still_reacted :: "(emoji \<times> int list) list \<Rightarrow> int \<Rightarrow> bool" where
  "still_reacted [] uid = False"
| "still_reacted ((e, users) # rs) uid =
     (if List.member meditation_emojis e \<and> List.member users uid then True
      else still_reacted rs uid)"

definition on_raw_reaction_remove ::
  "cog \<Rightarrow> reaction_env \<Rightarrow> payload \<Rightarrow> exn option \<times> cog \<times> action list" where
  "on_raw_reaction_remove c env p =
     (case fetched env of
        None \<Rightarrow> (Some Exception, c, [])
      | Some m \<Rightarrow>
          if author m \<noteq> bot_user env \<or> content m \<noteq> daily_message (settings c)
            then (None, c, [])
          else if \<not> List.member meditation_emojis (p_emoji p) then (None, c, [])
          else if still_reacted (reactions m) (p_user_id p) then (None, c, [])
          else
            (let meditation_date = get_meditation_date (created_at m) in
             (None,
              c\<lparr>records := delete_record (records c) (p_user_id p, meditation_date)\<rparr>,
              [])))"

section \<open>Start-up\<close>

text \<open>
  The settings \<^verbatim>\<open>load_settings\<close> returns when there is no settings file, and the cog as
  \<^verbatim>\<open>__init__\<close> leaves it: no post attempt so far, the lock free.
\<close>

definition default_settings :: settings where
  "default_settings =
     \<lparr>channel_id = None,
      daily_message = ''React to this message if you've meditated today'',
      last_post_time = None,
      was_first_post = False\<rparr>"

definition new_cog :: "settings \<Rightarrow> meditation_records \<Rightarrow> cog" where
  "new_cog s rows = \<lparr>settings = s, last_post_attempt = None, post_lock = False, records = rows\<rparr>"

section \<open>Facts about instants\<close>

lemma at_time_bounds:
  assumes "0 \<le> h" "h < 24" "0 \<le> m" "m < 60" "0 \<le> s" "s < 60" "0 \<le> us" "us < 1000000"
  shows "0 \<le> ((h * 60 + m) * 60 + s) * usec_per_second + us"
    and "((h * 60 + m) * 60 + s) * usec_per_second + us < usec_per_day"
  using assms unfolding usec_per_day_def usec_per_second_def by auto

lemma date_of_at_time:
  assumes "0 \<le> h" "h < 24" "0 \<le> m" "m < 60" "0 \<le> s" "s < 60" "0 \<le> us" "us < 1000000"
  shows "date_of (at_time D h m s us) = D"
proof -
  let ?x = "((h * 60 + m) * 60 + s) * usec_per_second + us"
  have b: "0 \<le> ?x" "?x < usec_per_day" using at_time_bounds[OF assms] by auto
  have "(D * usec_per_day + ?x) div usec_per_day = D"
    using b by (simp add: div_pos_pos_trivial usec_per_day_def usec_per_second_def)
  then show ?thesis by (simp add: date_of_def at_time_def add.assoc)
qed

lemma replace_time_at_time:
  assumes "0 \<le> h" "h < 24" "0 \<le> m" "m < 60" "0 \<le> s" "s < 60" "0 \<le> us" "us < 1000000"
  shows "replace_time (at_time D h m s us) h' m' s' us' = at_time D h' m' s' us'"
  using date_of_at_time[OF assms, of D] by (simp add: replace_time_def at_time_def)

lemma at_time_order:
  assumes "0 \<le> h" "h < 24" "0 \<le> m" "m < 60" "0 \<le> s" "s < 60" "0 \<le> us" "us < 1000000"
  shows "(at_time D 7 30 0 0 \<le> at_time D h m s us) = (7 < h \<or> (h = 7 \<and> 30 \<le> m))"
  using assms unfolding at_time_def usec_per_day_def usec_per_second_def by auto

lemma get_meditation_date_at_time:
  assumes "0 \<le> h" "h < 24" "0 \<le> m" "m < 60" "0 \<le> s" "s < 60" "0 \<le> us" "us < 1000000"
  shows "get_meditation_date (at_time D h m s us) =
           (if at_time D 7 30 0 0 \<le> at_time D h m s us then D else D - 1)"
  using date_of_at_time[OF assms, of D] replace_time_at_time[OF assms, of D 7 30 0 0]
  by (simp add: get_meditation_date_def Let_def)

lemma time_of_day_range: "0 \<le> time_of_day t \<and> time_of_day t < 86400000000"
  by (simp add: time_of_day_def usec_per_day_def usec_per_second_def)

lemma replace_time_0730: "replace_time t 7 30 0 0 = t - time_of_day t + 27000000000"
proof -
  have "t = date_of t * usec_per_day + time_of_day t"
    by (simp add: date_of_def time_of_day_def)
  then show ?thesis
    by (simp add: replace_time_def usec_per_second_def)
qed

lemma time_of_day_target: "time_of_day (replace_time t 7 30 0 0) = 27000000000"
proof -
  have "(date_of t * 86400000000 + 27000000000) mod 86400000000 = (27000000000::int)"
    by simp
  then show ?thesis
    by (simp add: replace_time_def time_of_day_def usec_per_day_def usec_per_second_def)
qed

lemma hour_target: "hour (replace_time t 7 30 0 0) = 7"
  by (simp add: hour_def time_of_day_target usec_per_second_def)

lemma minute_target: "minute (replace_time t 7 30 0 0) = 30"
  by (simp add: minute_def time_of_day_target usec_per_second_def)

lemma exact_minute_iff:
  "(hour t = 7 \<and> minute t = 30) = (27000000000 \<le> time_of_day t \<and> time_of_day t < 27060000000)"
proof -
  define x where "x = time_of_day t"
  define q where "q = x div 60000000"
  define r where "r = x mod 60000000"
  have x: "x = 60000000 * q + r" by (simp add: q_def r_def)
  have r: "0 \<le> r" "r < 60000000" by (simp_all add: r_def)
  have h: "x div 3600000000 = q div 60"
    using zdiv_zmult2_eq[of 60 x 60000000] by (simp add: q_def)
  have q: "q = 60 * (q div 60) + q mod 60" by simp
  have m: "0 \<le> q mod 60" "q mod 60 < 60" by simp_all
  have "(q div 60 = 7 \<and> q mod 60 = 30) = (q = 450)"
    by presburger
  also have "\<dots> = (27000000000 \<le> x \<and> x < 27060000000)"
    using x r by auto
  finally have "(x div 3600000000 = 7 \<and> (x div 60000000) mod 60 = 30)
      = (27000000000 \<le> x \<and> x < 27060000000)"
    unfolding h by (simp add: q_def)
  then show ?thesis
    by (simp add: hour_def minute_def x_def usec_per_second_def)
qed

lemma before_target_not_exact:
  assumes "now < replace_time now 7 30 0 0"
  shows "\<not> (hour now = 7 \<and> minute now = 30)"
  using assms by (simp add: exact_minute_iff replace_time_0730)

lemmas time_defs = at_time_def replace_time_def date_of_def time_of_day_def hour_def minute_def
  seconds_def usec_per_day_def usec_per_second_def

section \<open>Clock / time attribution: the cutoff\<close>

text \<open>
  C6. Every instant is wall-clock time \<open>h:m:s.us\<close> on some UTC calendar date \<open>D\<close>. Its
  calendar date is \<open>D\<close>; it is at or after 07:30:00.000000 of that date exactly when
  \<open>h > 7\<close>, or \<open>h = 7\<close> and \<open>m \<ge> 30\<close>; its meditation date is \<open>D\<close> when it is at or after
  07:30:00 on \<open>D\<close> and \<open>D - 1\<close> when it is before; and the instant 07:30:00.000000 on \<open>D\<close>
  itself has meditation date \<open>D\<close>.
\<close>

theorem get_meditation_date_cutoff:
  assumes "0 \<le> h" "h < 24" "0 \<le> m" "m < 60" "0 \<le> s" "s < 60" "0 \<le> us" "us < 1000000"
  shows "date_of (at_time D h m s us) = D
       \<and> (at_time D 7 30 0 0 \<le> at_time D h m s us) = (7 < h \<or> (h = 7 \<and> 30 \<le> m))
       \<and> get_meditation_date (at_time D h m s us) =
           (if at_time D 7 30 0 0 \<le> at_time D h m s us then D else D - 1)
       \<and> get_meditation_date (at_time D 7 30 0 0) = D"
proof -
  have "get_meditation_date (at_time D 7 30 0 0) = D"
    using get_meditation_date_at_time[of 7 30 0 0 D] by simp
  then show ?thesis
    using date_of_at_time[OF assms, of D] at_time_order[OF assms, of D]
      get_meditation_date_at_time[OF assms, of D]
    by simp
qed

theorem get_meditation_date_cutoff_witness:
  "get_meditation_date (at_time 19000 7 30 0 0) = 19000
   \<and> get_meditation_date (at_time 19000 7 29 59 999999) = 18999
   \<and> get_meditation_date (at_time 19000 23 59 59 999999) = 19000
   \<and> get_meditation_date (at_time 19000 0 0 0 0) = 18999
   \<and> date_of (at_time 19000 7 29 59 999999) = 19000"
  using get_meditation_date_cutoff[of 7 30 0 0 19000]
    get_meditation_date_cutoff[of 7 29 59 999999 19000]
    get_meditation_date_cutoff[of 23 59 59 999999 19000]
    get_meditation_date_cutoff[of 0 0 0 0 19000]
  by (simp add: at_time_def usec_per_day_def usec_per_second_def)

section \<open>Facts about one run of the scheduler\<close>

lemma post_daily_message_try_settings:
  "post_daily_message_try s w = (e, s', acts) \<Longrightarrow>
     s' = s \<or> s' = s\<lparr>last_post_time := Some (clock_at_update w)\<rparr>"
  by (auto simp: post_daily_message_try_def Let_def split: lookup.splits if_splits)

lemma post_daily_message_no_exn: "fst (post_daily_message s w) = None"
  by (simp add: post_daily_message_def split: prod.splits option.splits)

lemma post_daily_message_send_fails:
  assumes "channel_lookup w = Found" "\<not> send_ok w"
  shows "post_daily_message s w = (None, s, [LogException])"
  using assms by (simp add: post_daily_message_def post_daily_message_try_def)

lemma post_daily_message_send_ok:
  assumes "channel_lookup w = Found" "send_ok w"
  shows "Send (daily_message s) \<in> set (snd (snd (post_daily_message s w)))"
  using assms by (simp add: post_daily_message_def post_daily_message_try_def Let_def)

lemma post_daily_message_keeps:
  "was_first_post (fst (snd (post_daily_message s w))) = was_first_post s"
  "channel_id (fst (snd (post_daily_message s w))) = channel_id s"
  by (auto simp: post_daily_message_def post_daily_message_try_def Let_def
      split: lookup.splits)

lemma post_daily_message_shape:
  "post_daily_message s w =
     (None, fst (snd (post_daily_message s w)), snd (snd (post_daily_message s w)))"
  using post_daily_message_no_exn[of s w] by (cases "post_daily_message s w") simp

lemma daily_post_try_unfold:
  "daily_post_try c now w =
     (if post_lock c then (None, c, LockHeld, [])
      else if channel_unset (settings c) then (None, c, NoChannel, [])
      else if rate_limited c now then (None, c, RateLimited, [])
      else if hour now = 7 \<and> minute now = 30 then
        (None,
         c\<lparr>last_post_attempt := Some now,
           settings := fst (snd (post_daily_message (settings c) w))\<rparr>,
         ExactTime, snd (snd (post_daily_message (settings c) w)))
      else if fst (should_post (settings c) now) then
        (None,
         c\<lparr>last_post_attempt := Some now,
           settings := fst (snd (post_daily_message (snd (should_post (settings c) now)) w))\<rparr>,
         Recovery, snd (snd (post_daily_message (snd (should_post (settings c) now)) w)))
      else
        (None,
         c\<lparr>last_post_attempt := Some now, settings := snd (should_post (settings c) now)\<rparr>,
         NoPostNeeded, []))"
proof -
  obtain b s1 where sp: "should_post (settings c) now = (b, s1)"
    by (cases "should_post (settings c) now") auto
  obtain s2 a2 where p1: "post_daily_message (settings c) w = (None, s2, a2)"
    using post_daily_message_shape[of "settings c" w] by blast
  obtain s3 a3 where p2: "post_daily_message s1 w = (None, s3, a3)"
    using post_daily_message_shape[of s1 w] by blast
  show ?thesis
    by (cases b) (simp_all add: daily_post_try_def Let_def hour_target minute_target sp p1 p2)
qed

lemma daily_post_try_no_exn: "fst (daily_post_try c now w) = None"
  by (simp add: daily_post_try_unfold)

lemma daily_post_eq_try: "daily_post c now w = daily_post_try c now w"
proof -
  obtain e c' out acts where r: "daily_post_try c now w = (e, c', out, acts)"
    by (cases "daily_post_try c now w") auto
  with daily_post_try_no_exn[of c now w] have "e = None" by simp
  with r show ?thesis by (simp add: daily_post_def)
qed

lemmas daily_post_unfold = daily_post_try_unfold[folded daily_post_eq_try]

lemma daily_post_no_exn: "fst (daily_post c now w) = None"
  by (simp add: daily_post_unfold)

lemma outcome_daily_post:
  "outcome (daily_post c now w) =
     (if post_lock c then LockHeld
      else if channel_unset (settings c) then NoChannel
      else if rate_limited c now then RateLimited
      else if hour now = 7 \<and> minute now = 30 then ExactTime
      else if fst (should_post (settings c) now) then Recovery
      else NoPostNeeded)"
  by (simp add: daily_post_unfold outcome_def)

lemma attempt_daily_post:
  "last_post_attempt (cog_after (daily_post c now w)) =
     (if past_rate_limit (outcome (daily_post c now w)) then Some now else last_post_attempt c)"
  by (simp add: daily_post_unfold outcome_def cog_after_def past_rate_limit_def)

lemma skipped_daily_post:
  "\<not> past_rate_limit (outcome (daily_post c now w)) \<Longrightarrow>
     cog_after (daily_post c now w) = c \<and> actions (daily_post c now w) = []"
  by (simp add: daily_post_unfold outcome_def cog_after_def actions_def past_rate_limit_def
      split: if_splits)

lemma settings_daily_post:
  "settings (cog_after (daily_post c now w)) =
     (case outcome (daily_post c now w) of
        ExactTime \<Rightarrow> fst (snd (post_daily_message (settings c) w))
      | Recovery \<Rightarrow> fst (snd (post_daily_message (snd (should_post (settings c) now)) w))
      | NoPostNeeded \<Rightarrow> snd (should_post (settings c) now)
      | _ \<Rightarrow> settings c)"
  by (simp add: daily_post_unfold outcome_def cog_after_def)

lemma actions_daily_post:
  "actions (daily_post c now w) =
     (case outcome (daily_post c now w) of
        ExactTime \<Rightarrow> snd (snd (post_daily_message (settings c) w))
      | Recovery \<Rightarrow> snd (snd (post_daily_message (snd (should_post (settings c) now)) w))
      | _ \<Rightarrow> [])"
  by (simp add: daily_post_unfold outcome_def actions_def)

lemma lock_daily_post: "post_lock (cog_after (daily_post c now w)) = post_lock c"
  by (simp add: daily_post_unfold cog_after_def)

lemma should_post_steady:
  assumes "last_post_time s = Some lp" "\<not> was_first_post s"
  shows "should_post s now =
           (\<not> now - lp < seconds 84600
            \<and> ((replace_time now 7 30 0 0 \<le> now \<and> lp < replace_time now 7 30 0 0)
               \<or> seconds 86400 < now - lp), s)"
  using assms by (simp add: should_post_def Let_def)

lemma should_post_first:
  assumes "last_post_time s = Some lp" "was_first_post s"
  shows "should_post s now =
           (replace_time now 7 30 0 0 \<le> now \<and> lp < replace_time now 7 30 0 0,
            s\<lparr>was_first_post :=
                 \<not> (replace_time now 7 30 0 0 \<le> now \<and> lp < replace_time now 7 30 0 0)\<rparr>)"
proof -
  have "s\<lparr>was_first_post := True\<rparr> = s" using assms(2) by simp
  then show ?thesis using assms by (simp add: should_post_def Let_def)
qed

lemma should_post_never:
  assumes "last_post_time s = None"
  shows "should_post s now = (True, s\<lparr>was_first_post := True\<rparr>)"
  using assms by (simp add: should_post_def Let_def)

section \<open>The recovery predicate in the steady state\<close>

text \<open>
  C1. Steady state: \<^verbatim>\<open>was_first_post\<close> is false and \<^verbatim>\<open>last_post_time\<close> is the instant \<open>lp\<close>.
  For every instant \<open>now\<close>, \<^verbatim>\<open>should_post\<close> leaves the settings as they are, answers no when
  fewer than 23.5 hours (84600 seconds) have passed since \<open>lp\<close>, and otherwise answers yes
  exactly when \<open>now\<close> is at or after 07:30 of its own date and \<open>lp\<close> is before that target, or
  more than 24 hours have passed since \<open>lp\<close>. A run of the scheduler that gets past its guards
  outside the 07:30 minute attempts a post exactly under that condition. In particular: with
  \<open>lp\<close> 20 hours before \<open>now\<close> and \<open>now\<close> before the target, no run attempts a post or calls
  anything; with \<open>lp\<close> 25 hours before \<open>now\<close>, every run that gets past its guards attempts a
  post, whatever the time of day, and the message is sent when the channel is found and the
  send succeeds.
\<close>

theorem should_post_steady_state:
  assumes "last_post_time (settings c) = Some lp" "\<not> was_first_post (settings c)"
  shows "should_post (settings c) now =
           (\<not> now - lp < seconds 84600
            \<and> ((replace_time now 7 30 0 0 \<le> now \<and> lp < replace_time now 7 30 0 0)
               \<or> seconds 86400 < now - lp), settings c)
       \<and> (\<not> post_lock c \<and> \<not> channel_unset (settings c) \<and> \<not> rate_limited c now
            \<and> \<not> (hour now = 7 \<and> minute now = 30) \<longrightarrow>
          post_attempted (outcome (daily_post c now w)) =
            (\<not> now - lp < seconds 84600
             \<and> ((replace_time now 7 30 0 0 \<le> now \<and> lp < replace_time now 7 30 0 0)
                \<or> seconds 86400 < now - lp)))
       \<and> (now - lp = seconds 72000 \<and> now < replace_time now 7 30 0 0 \<longrightarrow>
          \<not> post_attempted (outcome (daily_post c now w)) \<and> actions (daily_post c now w) = [])
       \<and> (now - lp = seconds 90000 \<and> \<not> post_lock c \<and> \<not> channel_unset (settings c)
            \<and> \<not> rate_limited c now \<longrightarrow>
          post_attempted (outcome (daily_post c now w))
          \<and> (channel_lookup w = Found \<and> send_ok w \<longrightarrow>
               Send (daily_message (settings c)) \<in> set (actions (daily_post c now w))))"
proof -
  note sp = should_post_steady[OF assms, of now]
  have 1: "should_post (settings c) now =
           (\<not> now - lp < seconds 84600
            \<and> ((replace_time now 7 30 0 0 \<le> now \<and> lp < replace_time now 7 30 0 0)
               \<or> seconds 86400 < now - lp), settings c)"
    by (rule sp)
  have 2: "post_attempted (outcome (daily_post c now w)) =
            (\<not> now - lp < seconds 84600
             \<and> ((replace_time now 7 30 0 0 \<le> now \<and> lp < replace_time now 7 30 0 0)
                \<or> seconds 86400 < now - lp))"
    if "\<not> post_lock c" "\<not> channel_unset (settings c)" "\<not> rate_limited c now"
      "\<not> (hour now = 7 \<and> minute now = 30)"
    using that by (auto simp: outcome_daily_post sp post_attempted_def)
  have 3: "\<not> post_attempted (outcome (daily_post c now w)) \<and> actions (daily_post c now w) = []"
    if h: "now - lp = seconds 72000" "now < replace_time now 7 30 0 0"
  proof -
    have ne: "\<not> (hour now = 7 \<and> minute now = 30)" using h(2) by (rule before_target_not_exact)
    have f: "\<not> fst (should_post (settings c) now)"
      using h(1) by (simp add: sp seconds_def usec_per_second_def)
    have o: "\<not> post_attempted (outcome (daily_post c now w))"
      using ne f by (auto simp: outcome_daily_post post_attempted_def)
    then show ?thesis
      by (auto simp: actions_daily_post post_attempted_def split: tick_outcome.splits)
  qed
  have 4: "post_attempted (outcome (daily_post c now w))
          \<and> (channel_lookup w = Found \<and> send_ok w \<longrightarrow>
               Send (daily_message (settings c)) \<in> set (actions (daily_post c now w)))"
    if h: "now - lp = seconds 90000" "\<not> post_lock c" "\<not> channel_unset (settings c)"
      "\<not> rate_limited c now"
  proof -
    have f: "should_post (settings c) now = (True, settings c)"
      using h(1) by (simp add: sp seconds_def usec_per_second_def)
    show ?thesis
      using h(2-4) post_daily_message_send_ok[of w "settings c"]
      by (auto simp: outcome_daily_post actions_daily_post f post_attempted_def)
  qed
  show ?thesis using 1 2 3 4 by blast
qed

theorem should_post_steady_state_witness:
  "\<not> post_attempted (outcome (daily_post
        (new_cog (default_settings\<lparr>channel_id := Some ''1'',
                   last_post_time := Some (at_time 18999 10 0 0 0)\<rparr>) [])
        (at_time 19000 6 0 0 0)
        \<lparr>channel_lookup = Found, send_ok = True, react1_ok = True, react2_ok = True,
         clock_at_update = at_time 19000 6 0 0 1, save_ok = True\<rparr>))
   \<and> post_attempted (outcome (daily_post
        (new_cog (default_settings\<lparr>channel_id := Some ''1'',
                   last_post_time := Some (at_time 18999 11 0 0 0)\<rparr>) [])
        (at_time 19000 12 0 0 0)
        \<lparr>channel_lookup = Found, send_ok = True, react1_ok = True, react2_ok = True,
         clock_at_update = at_time 19000 12 0 0 1, save_ok = True\<rparr>))
   \<and> fst (should_post (default_settings\<lparr>channel_id := Some ''1'',
                   last_post_time := Some (at_time 18999 11 0 0 0)\<rparr>) (at_time 19000 12 0 0 0))"
  using should_post_steady_state[of
        "new_cog (default_settings\<lparr>channel_id := Some ''1'',
                   last_post_time := Some (at_time 18999 10 0 0 0)\<rparr>) []"
        "at_time 18999 10 0 0 0" "at_time 19000 6 0 0 0"
        "\<lparr>channel_lookup = Found, send_ok = True, react1_ok = True, react2_ok = True,
         clock_at_update = at_time 19000 6 0 0 1, save_ok = True\<rparr>"]
    should_post_steady_state[of
        "new_cog (default_settings\<lparr>channel_id := Some ''1'',
                   last_post_time := Some (at_time 18999 11 0 0 0)\<rparr>) []"
        "at_time 18999 11 0 0 0" "at_time 19000 12 0 0 0"
        "\<lparr>channel_lookup = Found, send_ok = True, react1_ok = True, react2_ok = True,
         clock_at_update = at_time 19000 12 0 0 1, save_ok = True\<rparr>"]
  by (simp add: new_cog_def default_settings_def channel_unset_def rate_limited_def time_defs)

section \<open>The recovery predicate after the first post\<close>

text \<open>
  C3. Posted-First state: \<^verbatim>\<open>was_first_post\<close> is true and \<^verbatim>\<open>last_post_time\<close> is the instant
  \<open>lp\<close>. For every instant \<open>now\<close>, \<^verbatim>\<open>should_post\<close> answers yes and clears the flag exactly when
  \<open>now\<close> is at or after 07:30 of its own date and \<open>lp\<close> is before that target; in every other
  case it answers no and the flag stays true; nothing else in the settings changes. A run of
  the scheduler that gets past its guards outside the 07:30 minute attempts a post exactly
  under that condition, and leaves the flag cleared exactly then.
\<close>

theorem should_post_posted_first:
  assumes "last_post_time (settings c) = Some lp" "was_first_post (settings c)"
  shows "should_post (settings c) now =
           (replace_time now 7 30 0 0 \<le> now \<and> lp < replace_time now 7 30 0 0,
            (settings c)\<lparr>was_first_post :=
                 \<not> (replace_time now 7 30 0 0 \<le> now \<and> lp < replace_time now 7 30 0 0)\<rparr>)
       \<and> (\<not> post_lock c \<and> \<not> channel_unset (settings c) \<and> \<not> rate_limited c now
            \<and> \<not> (hour now = 7 \<and> minute now = 30) \<longrightarrow>
          post_attempted (outcome (daily_post c now w)) =
            (replace_time now 7 30 0 0 \<le> now \<and> lp < replace_time now 7 30 0 0)
          \<and> was_first_post (settings (cog_after (daily_post c now w))) =
            (\<not> (replace_time now 7 30 0 0 \<le> now \<and> lp < replace_time now 7 30 0 0)))"
proof -
  note sp = should_post_first[OF assms, of now]
  have "post_attempted (outcome (daily_post c now w)) =
            (replace_time now 7 30 0 0 \<le> now \<and> lp < replace_time now 7 30 0 0)
          \<and> was_first_post (settings (cog_after (daily_post c now w))) =
            (\<not> (replace_time now 7 30 0 0 \<le> now \<and> lp < replace_time now 7 30 0 0))"
    if "\<not> post_lock c" "\<not> channel_unset (settings c)" "\<not> rate_limited c now"
      "\<not> (hour now = 7 \<and> minute now = 30)"
    using that
    by (auto simp: outcome_daily_post settings_daily_post sp post_attempted_def
        post_daily_message_keeps)
  with sp show ?thesis by blast
qed

theorem should_post_posted_first_witness:
  "should_post (default_settings\<lparr>channel_id := Some ''1'',
                  last_post_time := Some (at_time 19000 6 0 0 0),
                  was_first_post := True\<rparr>) (at_time 19000 8 0 0 0) =
     (True, default_settings\<lparr>channel_id := Some ''1'',
                  last_post_time := Some (at_time 19000 6 0 0 0),
                  was_first_post := False\<rparr>)
   \<and> should_post (default_settings\<lparr>last_post_time := Some (at_time 19000 6 0 0 0),
                  was_first_post := True\<rparr>) (at_time 19000 7 0 0 0) =
     (False, default_settings\<lparr>last_post_time := Some (at_time 19000 6 0 0 0),
                  was_first_post := True\<rparr>)
   \<and> post_attempted (outcome (daily_post
        (new_cog (default_settings\<lparr>channel_id := Some ''1'',
                   last_post_time := Some (at_time 19000 6 0 0 0),
                   was_first_post := True\<rparr>) [])
        (at_time 19000 8 0 0 0)
        \<lparr>channel_lookup = Found, send_ok = True, react1_ok = True, react2_ok = True,
         clock_at_update = at_time 19000 8 0 0 1, save_ok = True\<rparr>))
   \<and> was_first_post (settings (cog_after (daily_post
        (new_cog (default_settings\<lparr>channel_id := Some ''1'',
                   last_post_time := Some (at_time 19000 6 0 0 0),
                   was_first_post := True\<rparr>) [])
        (at_time 19000 8 0 0 0)
        \<lparr>channel_lookup = Found, send_ok = True, react1_ok = True, react2_ok = True,
         clock_at_update = at_time 19000 8 0 0 1, save_ok = True\<rparr>))) = False"
  using should_post_posted_first[of
        "new_cog (default_settings\<lparr>channel_id := Some ''1'',
                   last_post_time := Some (at_time 19000 6 0 0 0),
                   was_first_post := True\<rparr>) []"
        "at_time 19000 6 0 0 0" "at_time 19000 8 0 0 0"
        "\<lparr>channel_lookup = Found, send_ok = True, react1_ok = True, react2_ok = True,
         clock_at_update = at_time 19000 8 0 0 1, save_ok = True\<rparr>"]
    should_post_posted_first[of
        "new_cog (default_settings\<lparr>last_post_time := Some (at_time 19000 6 0 0 0),
                   was_first_post := True\<rparr>) []"
        "at_time 19000 6 0 0 0" "at_time 19000 7 0 0 0"
        "\<lparr>channel_lookup = Found, send_ok = True, react1_ok = True, react2_ok = True,
         clock_at_update = at_time 19000 8 0 0 1, save_ok = True\<rparr>"]
  by (simp add: new_cog_def default_settings_def channel_unset_def rate_limited_def time_defs)

section \<open>The first run of the scheduler\<close>

text \<open>
  C4, as the claim states it, fails in two ways. With the settings of a first start (no
  channel configured) the first run stops at the channel check and nothing is posted. With a
  channel configured and the first run in the 07:30 minute, the message is posted on the
  fast path, which does not call \<^verbatim>\<open>should_post\<close>: \<^verbatim>\<open>was_first_post\<close> stays false.
\<close>

theorem first_tick_counterexample:
  "outcome (daily_post (new_cog default_settings []) (at_time 19000 12 0 0 0)
        \<lparr>channel_lookup = Found, send_ok = True, react1_ok = True, react2_ok = True,
         clock_at_update = at_time 19000 12 0 0 1, save_ok = True\<rparr>) = NoChannel
   \<and> actions (daily_post (new_cog default_settings []) (at_time 19000 12 0 0 0)
        \<lparr>channel_lookup = Found, send_ok = True, react1_ok = True, react2_ok = True,
         clock_at_update = at_time 19000 12 0 0 1, save_ok = True\<rparr>) = []
   \<and> last_post_time (default_settings\<lparr>channel_id := Some ''1''\<rparr>) = None
   \<and> outcome (daily_post (new_cog (default_settings\<lparr>channel_id := Some ''1''\<rparr>) [])
        (at_time 19000 7 30 0 0)
        \<lparr>channel_lookup = Found, send_ok = True, react1_ok = True, react2_ok = True,
         clock_at_update = at_time 19000 7 30 0 1, save_ok = True\<rparr>) = ExactTime
   \<and> Send (daily_message default_settings)
       \<in> set (actions (daily_post (new_cog (default_settings\<lparr>channel_id := Some ''1''\<rparr>) [])
        (at_time 19000 7 30 0 0)
        \<lparr>channel_lookup = Found, send_ok = True, react1_ok = True, react2_ok = True,
         clock_at_update = at_time 19000 7 30 0 1, save_ok = True\<rparr>))
   \<and> was_first_post (settings (cog_after (daily_post
        (new_cog (default_settings\<lparr>channel_id := Some ''1''\<rparr>) [])
        (at_time 19000 7 30 0 0)
        \<lparr>channel_lookup = Found, send_ok = True, react1_ok = True, react2_ok = True,
         clock_at_update = at_time 19000 7 30 0 1, save_ok = True\<rparr>))) = False"
  by (simp add: outcome_daily_post actions_daily_post settings_daily_post
      post_daily_message_def post_daily_message_try_def Let_def
      new_cog_def default_settings_def channel_unset_def rate_limited_def time_defs)

text \<open>
  C4, amended. Starting with \<^verbatim>\<open>last_post_time\<close> absent, no earlier attempt, the lock free
  and a channel configured, the first run always attempts a post (the message goes out when
  the channel is found and the send succeeds). Outside the 07:30 minute the run sets
  \<^verbatim>\<open>was_first_post\<close> to true; in the 07:30 minute it leaves the flag as it was.
\<close>

theorem first_tick_attempts_post:
  assumes "last_post_time (settings c) = None" "last_post_attempt c = None"
    "\<not> post_lock c" "\<not> channel_unset (settings c)"
  shows "post_attempted (outcome (daily_post c now w))
       \<and> (channel_lookup w = Found \<and> send_ok w \<longrightarrow>
            Send (daily_message (settings c)) \<in> set (actions (daily_post c now w)))
       \<and> was_first_post (settings (cog_after (daily_post c now w))) =
           (if hour now = 7 \<and> minute now = 30 then was_first_post (settings c) else True)"
proof -
  note sp = should_post_never[OF assms(1), of now]
  have rl: "\<not> rate_limited c now" using assms(2) by (simp add: rate_limited_def)
  have 1: "post_attempted (outcome (daily_post c now w))"
    using assms(3,4) rl by (auto simp: outcome_daily_post sp post_attempted_def)
  have 2: "Send (daily_message (settings c)) \<in> set (actions (daily_post c now w))"
    if "channel_lookup w = Found" "send_ok w"
    using assms(3,4) rl post_daily_message_send_ok[OF that, of "settings c"]
      post_daily_message_send_ok[OF that, of "(settings c)\<lparr>was_first_post := True\<rparr>"]
    by (auto simp: outcome_daily_post actions_daily_post sp)
  have 3: "was_first_post (settings (cog_after (daily_post c now w))) =
           (if hour now = 7 \<and> minute now = 30 then was_first_post (settings c) else True)"
    using assms(3,4) rl
    by (auto simp: outcome_daily_post settings_daily_post sp post_daily_message_keeps)
  show ?thesis using 1 2 3 by blast
qed

theorem first_tick_attempts_post_witness:
  "post_attempted (outcome (daily_post (new_cog (default_settings\<lparr>channel_id := Some ''1''\<rparr>) [])
        (at_time 19000 12 0 0 0)
        \<lparr>channel_lookup = Found, send_ok = True, react1_ok = True, react2_ok = True,
         clock_at_update = at_time 19000 12 0 0 1, save_ok = True\<rparr>))
   \<and> Send (daily_message default_settings)
       \<in> set (actions (daily_post (new_cog (default_settings\<lparr>channel_id := Some ''1''\<rparr>) [])
        (at_time 19000 12 0 0 0)
        \<lparr>channel_lookup = Found, send_ok = True, react1_ok = True, react2_ok = True,
         clock_at_update = at_time 19000 12 0 0 1, save_ok = True\<rparr>))
   \<and> was_first_post (settings (cog_after (daily_post
        (new_cog (default_settings\<lparr>channel_id := Some ''1''\<rparr>) [])
        (at_time 19000 12 0 0 0)
        \<lparr>channel_lookup = Found, send_ok = True, react1_ok = True, react2_ok = True,
         clock_at_update = at_time 19000 12 0 0 1, save_ok = True\<rparr>)))"
  using first_tick_attempts_post[of
        "new_cog (default_settings\<lparr>channel_id := Some ''1''\<rparr>) []"
        "at_time 19000 12 0 0 0"
        "\<lparr>channel_lookup = Found, send_ok = True, react1_ok = True, react2_ok = True,
         clock_at_update = at_time 19000 12 0 0 1, save_ok = True\<rparr>"]
  by (simp add: new_cog_def default_settings_def channel_unset_def time_defs)

section \<open>A send that fails\<close>

text \<open>
  C5. A run of the scheduler calls \<^verbatim>\<open>post_daily_message\<close>, the channel is found and
  \<^verbatim>\<open>channel.send\<close> raises. Then no exception leaves the run: the failure is caught and logged
  inside \<^verbatim>\<open>post_daily_message\<close> and nothing else is called. \<^verbatim>\<open>last_post_time\<close> is what it was
  before the run. So a later run, five minutes or more after this one, decides on the
  unchanged \<^verbatim>\<open>last_post_time\<close>: it attempts a post exactly when it falls in the 07:30 minute
  or \<^verbatim>\<open>should_post\<close> says so; in particular it does when nothing had been posted before, and
  when the failed run was in the steady state and more than 24 hours have passed since
  \<^verbatim>\<open>last_post_time\<close>.
\<close>

theorem send_failure_is_caught:
  assumes "post_attempted (outcome (daily_post c now w))"
    "channel_lookup w = Found" "\<not> send_ok w"
  shows "fst (daily_post c now w) = None
       \<and> actions (daily_post c now w) = [LogException]
       \<and> last_post_time (settings (cog_after (daily_post c now w))) = last_post_time (settings c)
       \<and> (seconds 300 \<le> now2 - now \<longrightarrow>
            post_attempted (outcome (daily_post (cog_after (daily_post c now w)) now2 w2)) =
              ((hour now2 = 7 \<and> minute now2 = 30)
               \<or> fst (should_post (settings (cog_after (daily_post c now w))) now2)))
       \<and> (seconds 300 \<le> now2 - now
            \<and> (last_post_time (settings c) = None
               \<or> (\<exists>lp. last_post_time (settings c) = Some lp \<and> \<not> was_first_post (settings c)
                     \<and> seconds 86400 < now2 - lp)) \<longrightarrow>
            post_attempted (outcome (daily_post (cog_after (daily_post c now w)) now2 w2)))"
proof -
  let ?c' = "cog_after (daily_post c now w)"
  note pf = post_daily_message_send_fails[OF assms(2,3)]
  have g: "\<not> post_lock c" "\<not> channel_unset (settings c)" "\<not> rate_limited c now"
    using assms(1) by (auto simp: outcome_daily_post post_attempted_def split: if_splits)
  have 1: "fst (daily_post c now w) = None" by (rule daily_post_no_exn)
  have 2: "actions (daily_post c now w) = [LogException]"
    using assms(1) by (auto simp: actions_daily_post post_attempted_def pf)
  have s': "settings ?c' =
      (if hour now = 7 \<and> minute now = 30 then settings c else snd (should_post (settings c) now))"
    using assms(1) g
    by (auto simp: settings_daily_post outcome_daily_post post_attempted_def pf)
  have sp_lp: "last_post_time (snd (should_post s now)) = last_post_time s" for s
    by (auto simp: should_post_def Let_def split: option.splits)
  have sp_ch: "channel_id (snd (should_post s now)) = channel_id s" for s
    by (auto simp: should_post_def Let_def split: option.splits)
  have 3: "last_post_time (settings ?c') = last_post_time (settings c)"
    by (simp add: s' sp_lp)
  have ch: "\<not> channel_unset (settings ?c')"
    using g(2) by (simp add: s' sp_ch channel_unset_def)
  have lk: "\<not> post_lock ?c'" using g(1) by (simp add: lock_daily_post)
  have at: "last_post_attempt ?c' = Some now"
    using assms(1) by (auto simp: attempt_daily_post past_rate_limit_def post_attempted_def)
  have 4: "post_attempted (outcome (daily_post ?c' now2 w2)) =
              ((hour now2 = 7 \<and> minute now2 = 30) \<or> fst (should_post (settings ?c') now2))"
    if "seconds 300 \<le> now2 - now"
  proof -
    have "\<not> rate_limited ?c' now2" using that by (simp add: rate_limited_def at)
    then show ?thesis using ch lk by (auto simp: outcome_daily_post post_attempted_def)
  qed
  have 5: "post_attempted (outcome (daily_post ?c' now2 w2))"
    if h: "seconds 300 \<le> now2 - now"
      "last_post_time (settings c) = None
               \<or> (\<exists>lp. last_post_time (settings c) = Some lp \<and> \<not> was_first_post (settings c)
                     \<and> seconds 86400 < now2 - lp)"
  proof -
    have "fst (should_post (settings ?c') now2)"
      using h(2)
    proof
      assume "last_post_time (settings c) = None"
      then have "last_post_time (settings ?c') = None" using 3 by simp
      then show ?thesis by (simp add: should_post_never)
    next
      assume "\<exists>lp. last_post_time (settings c) = Some lp \<and> \<not> was_first_post (settings c)
                     \<and> seconds 86400 < now2 - lp"
      then obtain lp where lp: "last_post_time (settings c) = Some lp"
        "\<not> was_first_post (settings c)" "seconds 86400 < now2 - lp" by blast
      have "settings ?c' = settings c"
        by (simp add: s' should_post_steady[OF lp(1,2)])
      then show ?thesis
        using lp(3) by (simp add: should_post_steady[OF lp(1,2)] seconds_def usec_per_second_def)
    qed
    then show ?thesis using 4[OF h(1)] by simp
  qed
  show ?thesis using 1 2 3 4 5 by blast
qed

theorem send_failure_is_caught_witness:
  "fst (daily_post (new_cog (default_settings\<lparr>channel_id := Some ''1''\<rparr>) [])
        (at_time 19000 12 0 0 0)
        \<lparr>channel_lookup = Found, send_ok = False, react1_ok = True, react2_ok = True,
         clock_at_update = at_time 19000 12 0 0 1, save_ok = True\<rparr>) = None
   \<and> actions (daily_post (new_cog (default_settings\<lparr>channel_id := Some ''1''\<rparr>) [])
        (at_time 19000 12 0 0 0)
        \<lparr>channel_lookup = Found, send_ok = False, react1_ok = True, react2_ok = True,
         clock_at_update = at_time 19000 12 0 0 1, save_ok = True\<rparr>) = [LogException]
   \<and> last_post_time (settings (cog_after (daily_post
        (new_cog (default_settings\<lparr>channel_id := Some ''1''\<rparr>) [])
        (at_time 19000 12 0 0 0)
        \<lparr>channel_lookup = Found, send_ok = False, react1_ok = True, react2_ok = True,
         clock_at_update = at_time 19000 12 0 0 1, save_ok = True\<rparr>))) = None
   \<and> post_attempted (outcome (daily_post
        (cog_after (daily_post
          (new_cog (default_settings\<lparr>channel_id := Some ''1''\<rparr>) [])
          (at_time 19000 12 0 0 0)
          \<lparr>channel_lookup = Found, send_ok = False, react1_ok = True, react2_ok = True,
           clock_at_update = at_time 19000 12 0 0 1, save_ok = True\<rparr>))
        (at_time 19000 12 5 0 0)
        \<lparr>channel_lookup = Found, send_ok = True, react1_ok = True, react2_ok = True,
         clock_at_update = at_time 19000 12 5 0 1, save_ok = True\<rparr>))"
  using send_failure_is_caught[of
        "new_cog (default_settings\<lparr>channel_id := Some ''1''\<rparr>) []"
        "at_time 19000 12 0 0 0"
        "\<lparr>channel_lookup = Found, send_ok = False, react1_ok = True, react2_ok = True,
         clock_at_update = at_time 19000 12 0 0 1, save_ok = True\<rparr>"
        "at_time 19000 12 5 0 0"
        "\<lparr>channel_lookup = Found, send_ok = True, react1_ok = True, react2_ok = True,
         clock_at_update = at_time 19000 12 5 0 1, save_ok = True\<rparr>"]
  by (simp add: outcome_daily_post post_attempted_def should_post_def
      new_cog_def default_settings_def channel_unset_def rate_limited_def time_defs)

section \<open>The rate limit\<close>

lemma attempt_grows:
  assumes "last_post_attempt c = Some a"
  shows "\<exists>a'. a \<le> a' \<and> last_post_attempt (cog_after (daily_post c now w)) = Some a'"
proof (cases "past_rate_limit (outcome (daily_post c now w))")
  case True
  then have "\<not> rate_limited c now"
    by (auto simp: outcome_daily_post past_rate_limit_def split: if_splits)
  then have "a \<le> now"
    using assms by (simp add: rate_limited_def seconds_def usec_per_second_def)
  then show ?thesis using True by (simp add: attempt_daily_post)
next
  case False
  then show ?thesis using assms by (simp add: attempt_daily_post)
qed

lemma attempt_grows_run:
  assumes "last_post_attempt c = Some a"
  shows "\<exists>a'. a \<le> a' \<and> last_post_attempt (run_ticks c ticks) = Some a'"
  using assms
proof (induction ticks arbitrary: c a)
  case Nil
  then show ?case by simp
next
  case (Cons t ticks)
  obtain now w where t: "t = (now, w)" by (cases t)
  from attempt_grows[OF Cons.prems, of now w] obtain a1 where
    a1: "a \<le> a1" "last_post_attempt (cog_after (daily_post c now w)) = Some a1" by blast
  from Cons.IH[OF a1(2)] obtain a2 where
    "a1 \<le> a2" "last_post_attempt (run_ticks (cog_after (daily_post c now w)) ticks) = Some a2"
    by blast
  with a1(1) show ?case by (auto simp: t)
qed

text \<open>
  C2. A run that finds an attempt recorded less than 300 seconds before its own clock reading
  stops at the rate limit check: it evaluates no posting condition, calls nothing and leaves
  the cog as it was. Every run that gets past the check has recorded its own clock reading as
  the attempt, whatever it decides afterwards. Hence, of two runs whose clock readings \<open>t1\<close>
  and \<open>t2\<close> satisfy \<open>t2 - t1 < 300 s\<close> (the later run less than five minutes after the earlier
  one, or with a clock that went back), with any runs in between, at most one gets past the
  check.
\<close>

theorem rate_limit_five_minutes:
  "(last_post_attempt c = Some a \<and> now - a < seconds 300 \<longrightarrow>
      \<not> past_rate_limit (outcome (daily_post c now w))
      \<and> cog_after (daily_post c now w) = c \<and> actions (daily_post c now w) = [])
   \<and> (past_rate_limit (outcome (daily_post c now w)) \<longrightarrow>
      last_post_attempt (cog_after (daily_post c now w)) = Some now)
   \<and> (past_rate_limit (outcome (daily_post c t1 w1)) \<and> t2 - t1 < seconds 300 \<longrightarrow>
      \<not> past_rate_limit
          (outcome (daily_post (run_ticks (cog_after (daily_post c t1 w1)) ticks) t2 w2)))"
proof -
  have 1: "\<not> past_rate_limit (outcome (daily_post c now w))
      \<and> cog_after (daily_post c now w) = c \<and> actions (daily_post c now w) = []"
    if "last_post_attempt c = Some a" "now - a < seconds 300"
  proof -
    have "rate_limited c now" using that by (simp add: rate_limited_def)
    then have "\<not> past_rate_limit (outcome (daily_post c now w))"
      by (simp add: outcome_daily_post past_rate_limit_def)
    then show ?thesis using skipped_daily_post by blast
  qed
  have 2: "last_post_attempt (cog_after (daily_post c now w)) = Some now"
    if "past_rate_limit (outcome (daily_post c now w))"
    using that by (simp add: attempt_daily_post)
  have 3: "\<not> past_rate_limit
          (outcome (daily_post (run_ticks (cog_after (daily_post c t1 w1)) ticks) t2 w2))"
    if h: "past_rate_limit (outcome (daily_post c t1 w1))" "t2 - t1 < seconds 300"
  proof -
    have "last_post_attempt (cog_after (daily_post c t1 w1)) = Some t1"
      using h(1) by (simp add: attempt_daily_post)
    from attempt_grows_run[OF this, of ticks] obtain a' where
      a': "t1 \<le> a'" "last_post_attempt (run_ticks (cog_after (daily_post c t1 w1)) ticks) = Some a'"
      by blast
    have "t2 - a' < seconds 300" using a'(1) h(2) by simp
    then have "rate_limited (run_ticks (cog_after (daily_post c t1 w1)) ticks) t2"
      by (simp add: rate_limited_def a'(2))
    then show ?thesis by (simp add: outcome_daily_post past_rate_limit_def)
  qed
  show ?thesis using 1 2 3 by blast
qed

theorem rate_limit_five_minutes_witness:
  "past_rate_limit (outcome (daily_post
        (new_cog (default_settings\<lparr>channel_id := Some ''1''\<rparr>) [])
        (at_time 19000 12 0 0 0)
        \<lparr>channel_lookup = Found, send_ok = True, react1_ok = True, react2_ok = True,
         clock_at_update = at_time 19000 12 0 0 1, save_ok = True\<rparr>))
   \<and> last_post_attempt (cog_after (daily_post
        (new_cog (default_settings\<lparr>channel_id := Some ''1''\<rparr>) [])
        (at_time 19000 12 0 0 0)
        \<lparr>channel_lookup = Found, send_ok = True, react1_ok = True, react2_ok = True,
         clock_at_update = at_time 19000 12 0 0 1, save_ok = True\<rparr>)) = Some (at_time 19000 12 0 0 0)
   \<and> \<not> past_rate_limit (outcome (daily_post
        (run_ticks (cog_after (daily_post
          (new_cog (default_settings\<lparr>channel_id := Some ''1''\<rparr>) [])
          (at_time 19000 12 0 0 0)
          \<lparr>channel_lookup = Found, send_ok = True, react1_ok = True, react2_ok = True,
           clock_at_update = at_time 19000 12 0 0 1, save_ok = True\<rparr>))
          [(at_time 19000 12 1 0 0,
            \<lparr>channel_lookup = Found, send_ok = True, react1_ok = True, react2_ok = True,
             clock_at_update = at_time 19000 12 1 0 1, save_ok = True\<rparr>)])
        (at_time 19000 12 4 59 999999)
        \<lparr>channel_lookup = Found, send_ok = True, react1_ok = True, react2_ok = True,
         clock_at_update = at_time 19000 12 5 0 0, save_ok = True\<rparr>))
   \<and> actions (daily_post
        ((new_cog (default_settings\<lparr>channel_id := Some ''1''\<rparr>) [])
           \<lparr>last_post_attempt := Some (at_time 19000 12 0 0 0)\<rparr>)
        (at_time 19000 12 4 59 999999)
        \<lparr>channel_lookup = Found, send_ok = True, react1_ok = True, react2_ok = True,
         clock_at_update = at_time 19000 12 5 0 0, save_ok = True\<rparr>) = []"
  using rate_limit_five_minutes[where
        c = "new_cog (default_settings\<lparr>channel_id := Some ''1''\<rparr>) []"
        and now = "at_time 19000 12 0 0 0"
        and w = "\<lparr>channel_lookup = Found, send_ok = True, react1_ok = True, react2_ok = True,
         clock_at_update = at_time 19000 12 0 0 1, save_ok = True\<rparr>"
        and a = 0
        and ?t1.0 = "at_time 19000 12 0 0 0"
        and ?w1.0 = "\<lparr>channel_lookup = Found, send_ok = True, react1_ok = True, react2_ok = True,
         clock_at_update = at_time 19000 12 0 0 1, save_ok = True\<rparr>"
        and ticks = "[(at_time 19000 12 1 0 0,
            \<lparr>channel_lookup = Found, send_ok = True, react1_ok = True, react2_ok = True,
             clock_at_update = at_time 19000 12 1 0 1, save_ok = True\<rparr>)]"
        and ?t2.0 = "at_time 19000 12 4 59 999999"
        and ?w2.0 = "\<lparr>channel_lookup = Found, send_ok = True, react1_ok = True, react2_ok = True,
         clock_at_update = at_time 19000 12 5 0 0, save_ok = True\<rparr>"]
    rate_limit_five_minutes[where
        c = "(new_cog (default_settings\<lparr>channel_id := Some ''1''\<rparr>) [])
           \<lparr>last_post_attempt := Some (at_time 19000 12 0 0 0)\<rparr>"
        and a = "at_time 19000 12 0 0 0"
        and now = "at_time 19000 12 4 59 999999"
        and w = "\<lparr>channel_lookup = Found, send_ok = True, react1_ok = True, react2_ok = True,
         clock_at_update = at_time 19000 12 5 0 0, save_ok = True\<rparr>"]
  by (simp add: outcome_daily_post past_rate_limit_def should_post_def
      new_cog_def default_settings_def channel_unset_def rate_limited_def time_defs)

section \<open>Facts about the record store\<close>

text \<open>The primary key: both statements keep a table free of repeated rows.\<close>

lemma insert_or_replace_distinct: "distinct rows \<Longrightarrow> distinct (insert_or_replace rows r)"
  by (auto simp: insert_or_replace_def)

lemma delete_record_distinct: "distinct rows \<Longrightarrow> distinct (delete_record rows r)"
  by (simp add: delete_record_def)

lemma insert_or_replace_twice:
  "insert_or_replace (insert_or_replace rows r) r = insert_or_replace rows r"
  by (simp add: insert_or_replace_def)

lemma delete_record_absent: "r \<notin> set rows \<Longrightarrow> delete_record rows r = rows"
  by (auto simp: delete_record_def filter_id_conv)

lemma user_dates_distinct:
  assumes "distinct rows"
  shows "distinct (map snd (filter (\<lambda>x. fst x = uid) rows))"
proof -
  have "inj_on snd (set (filter (\<lambda>x. fst x = uid) rows))"
    by (auto simp: inj_on_def)
  then show ?thesis using assms by (simp add: distinct_map)
qed

lemma user_dates_set:
  "set (map snd (filter (\<lambda>x. fst x = uid) rows)) = {d. (uid, d) \<in> set rows}"
  by force

lemma select_dates_desc_four:
  assumes "distinct rows" "{d. (uid, d) \<in> set rows} = {D, D - 1, D - 2, D - 5}"
  shows "select_dates_desc rows uid = [D, D - 1, D - 2, D - 5]"
proof -
  let ?ds = "map snd (filter (\<lambda>x. fst x = uid) rows)"
  have "sorted (sort ?ds)" "distinct (sort ?ds)"
    using user_dates_distinct[OF assms(1), of uid] by simp_all
  moreover have "sorted [D - 5, D - 2, D - 1, D]" "distinct [D - 5, D - 2, D - 1, D]"
    by simp_all
  moreover have "set (sort ?ds) = set [D - 5, D - 2, D - 1, D]"
    using assms(2) by (auto simp: user_dates_set simp del: set_map set_filter)
  ultimately have "sort ?ds = [D - 5, D - 2, D - 1, D]"
    by (rule sorted_distinct_set_unique)
  then show ?thesis by (simp add: select_dates_desc_def)
qed

section \<open>Streaks\<close>

text \<open>
  C7. \<^verbatim>\<open>get_streak\<close> returns 0 for a user with no row in the table. For a user whose rows
  carry exactly the dates \<open>D\<close>, \<open>D - 1\<close>, \<open>D - 2\<close> and \<open>D - 5\<close> (a table under its primary key
  holds no row twice) it returns 3. Its result is the same for every \<^verbatim>\<open>current_date\<close>.
\<close>

theorem get_streak_properties:
  "((\<forall>d. (uid, d) \<notin> set rows) \<longrightarrow> get_streak rows uid current_date = 0)
   \<and> (distinct rows \<and> {d. (uid, d) \<in> set rows} = {D, D - 1, D - 2, D - 5} \<longrightarrow>
        get_streak rows uid current_date = 3)
   \<and> get_streak rows uid current_date = get_streak rows uid other_date"
proof -
  have 1: "get_streak rows uid current_date = 0" if "\<forall>d. (uid, d) \<notin> set rows"
  proof -
    have "filter (\<lambda>x. fst x = uid) rows = []"
      using that by (auto simp: filter_empty_conv)
    then show ?thesis by (simp add: get_streak_def select_dates_desc_def)
  qed
  have 2: "get_streak rows uid current_date = 3"
    if "distinct rows" "{d. (uid, d) \<in> set rows} = {D, D - 1, D - 2, D - 5}"
    by (simp add: get_streak_def select_dates_desc_four[OF that])
  have 3: "get_streak rows uid current_date = get_streak rows uid other_date"
    by (simp add: get_streak_def)
  show ?thesis using 1 2 3 by blast
qed

theorem get_streak_properties_witness:
  "get_streak [(1, 100), (2, 50), (1, 95), (1, 99), (1, 98)] 1 100 = 3
   \<and> get_streak [(1, 100), (2, 50), (1, 95), (1, 99), (1, 98)] 1 4000 = 3
   \<and> get_streak [(1, 100), (2, 50), (1, 95), (1, 99), (1, 98)] 3 100 = 0"
  using get_streak_properties[of 1 "[(1, 100), (2, 50), (1, 95), (1, 99), (1, 98)]" 100 100 4000]
    get_streak_properties[of 3 "[(1, 100), (2, 50), (1, 95), (1, 99), (1, 98)]" 100 0 0]
  by auto

section \<open>Facts about the reaction handlers\<close>

lemma on_raw_reaction_add_accept:
  assumes "fetched env = Some m" "p_user_id p \<noteq> bot_user env" "author m = bot_user env"
    "content m = daily_message (settings c)" "p_emoji p \<in> set meditation_emojis"
    "days (clock env - created_at m) \<le> 2"
  shows "on_raw_reaction_add c env p =
           (None,
            c\<lparr>records := insert_or_replace (records c)
                            (p_user_id p, get_meditation_date (created_at m))\<rparr>, [])"
  using assms by (simp add: on_raw_reaction_add_def Let_def)

lemma on_raw_reaction_add_stale:
  assumes "fetched env = Some m" "p_user_id p \<noteq> bot_user env" "author m = bot_user env"
    "content m = daily_message (settings c)" "p_emoji p \<in> set meditation_emojis"
    "2 < days (clock env - created_at m)"
  shows "on_raw_reaction_add c env p =
           (if remove_ok env then (None, c, [RemoveReaction (p_emoji p) (p_user_id p)])
            else (Some Exception, c, []))"
  using assms by (simp add: on_raw_reaction_add_def Let_def)

lemma on_raw_reaction_remove_accept:
  assumes "fetched env = Some m" "author m = bot_user env"
    "content m = daily_message (settings c)" "p_emoji p \<in> set meditation_emojis"
    "\<not> still_reacted (reactions m) (p_user_id p)"
  shows "on_raw_reaction_remove c env p =
           (None,
            c\<lparr>records := delete_record (records c)
                            (p_user_id p, get_meditation_date (created_at m))\<rparr>, [])"
  using assms by (simp add: on_raw_reaction_remove_def Let_def)

lemma days_gt_2: "(2 < days td) = (seconds 259200 \<le> td)"
proof -
  define q where "q = td div 86400000000"
  define r where "r = td mod 86400000000"
  have td: "td = 86400000000 * q + r" by (simp add: q_def r_def)
  have r: "0 \<le> r" "r < 86400000000" by (simp_all add: r_def)
  have "(2 < q) = (259200000000 \<le> td)" using td r by auto
  then show ?thesis
    by (simp add: q_def days_def seconds_def usec_per_day_def usec_per_second_def)
qed

section \<open>Recording and removing twice\<close>

text \<open>
  C9. \<^verbatim>\<open>INSERT OR REPLACE\<close> of a row leaves the table, after a second execution, as the
  first left it, and the handler \<^verbatim>\<open>on_raw_reaction_add\<close> run a second time on the same event
  returns what the first run returned, with the same cog: no error on the duplicate. The
  \<^verbatim>\<open>DELETE\<close> of a row that is not in the table leaves the table as it was, and
  \<^verbatim>\<open>on_raw_reaction_remove\<close> for a user who has no row for the message's meditation date
  returns without error and leaves the cog unchanged.
\<close>

theorem record_store_idempotent:
  "insert_or_replace (insert_or_replace rows r) r = insert_or_replace rows r
   \<and> (r \<notin> set rows \<longrightarrow> delete_record rows r = rows)
   \<and> on_raw_reaction_add (fst (snd (on_raw_reaction_add c env p))) env p =
       on_raw_reaction_add c env p
   \<and> (fetched env = Some m
        \<and> (p_user_id p, get_meditation_date (created_at m)) \<notin> set (records c) \<longrightarrow>
          on_raw_reaction_remove c env p = (None, c, []))"
proof -
  have 3: "on_raw_reaction_add (fst (snd (on_raw_reaction_add c env p))) env p =
       on_raw_reaction_add c env p"
    by (simp add: on_raw_reaction_add_def Let_def insert_or_replace_twice
        split: option.splits)
  have 4: "on_raw_reaction_remove c env p = (None, c, [])"
    if "fetched env = Some m"
      "(p_user_id p, get_meditation_date (created_at m)) \<notin> set (records c)"
    using that by (simp add: on_raw_reaction_remove_def Let_def delete_record_absent)
  show ?thesis using insert_or_replace_twice delete_record_absent 3 4 by blast
qed

theorem record_store_idempotent_witness:
  "insert_or_replace (insert_or_replace [(1, 100), (2, 50)] (1, 100)) (1, 100) =
     insert_or_replace [(1, 100), (2, 50)] (1, 100)
   \<and> insert_or_replace [(1, 100), (2, 50)] (1, 100) = [(2, 50), (1, 100)]
   \<and> delete_record [(2, 50)] (1, 100) = [(2, 50)]
   \<and> on_raw_reaction_remove (new_cog default_settings [(2, 50)])
        \<lparr>bot_user = 1,
         fetched = Some \<lparr>author = 1, content = daily_message default_settings,
                         created_at = at_time 100 8 0 0 0, reactions = []\<rparr>,
         clock = at_time 100 9 0 0 0, remove_ok = True\<rparr>
        \<lparr>p_user_id = 1, p_emoji = ManLotus\<rparr>
     = (None, new_cog default_settings [(2, 50)], [])"
  using record_store_idempotent[where rows = "[(1, 100), (2, 50)]" and r = "(1, 100)"]
    record_store_idempotent[where rows = "[(2, 50)]" and r = "(1, 100)"
      and c = "new_cog default_settings [(2, 50)]"
      and env = "\<lparr>bot_user = 1,
         fetched = Some \<lparr>author = 1, content = daily_message default_settings,
                         created_at = at_time 100 8 0 0 0, reactions = []\<rparr>,
         clock = at_time 100 9 0 0 0, remove_ok = True\<rparr>"
      and p = "\<lparr>p_user_id = 1, p_emoji = ManLotus\<rparr>"
      and m = "\<lparr>author = 1, content = daily_message default_settings,
                         created_at = at_time 100 8 0 0 0, reactions = []\<rparr>"]
  by (simp add: insert_or_replace_def new_cog_def get_meditation_date_def time_defs)

section \<open>The date a check-in is stored under\<close>

text \<open>
  C10. For a reaction with a meditation emoji on a prompt message \<open>m\<close> of the bot: an accepted
  \<^verbatim>\<open>on_raw_reaction_add\<close> (the user is not the bot, the message's age in whole days is at most
  2) writes the row of the user with \<^verbatim>\<open>get_meditation_date(message.created_at)\<close>, and
  \<^verbatim>\<open>on_raw_reaction_remove\<close> (the user has no meditation reaction left) deletes the row of
  the user with that same date. The date depends on the message alone: neither the clock
  reading at the event nor the user enters it, and whatever row of the user the add handler
  brings into the table carries the message's date.
\<close>

theorem meditation_date_from_message:
  assumes "fetched env = Some m" "author m = bot_user env"
    "content m = daily_message (settings c)" "p_emoji p \<in> set meditation_emojis"
  shows "(p_user_id p \<noteq> bot_user env \<and> days (clock env - created_at m) \<le> 2 \<longrightarrow>
          on_raw_reaction_add c env p =
            (None,
             c\<lparr>records := insert_or_replace (records c)
                             (p_user_id p, get_meditation_date (created_at m))\<rparr>, []))
       \<and> (\<not> still_reacted (reactions m) (p_user_id p) \<longrightarrow>
          on_raw_reaction_remove c env p =
            (None,
             c\<lparr>records := delete_record (records c)
                             (p_user_id p, get_meditation_date (created_at m))\<rparr>, []))
       \<and> (\<forall>d. (p_user_id p, d) \<in> set (records (fst (snd (on_raw_reaction_add c env p))))
               \<and> (p_user_id p, d) \<notin> set (records c) \<longrightarrow>
             d = get_meditation_date (created_at m))"
proof -
  have 3: "d = get_meditation_date (created_at m)"
    if "(p_user_id p, d) \<in> set (records (fst (snd (on_raw_reaction_add c env p))))"
      "(p_user_id p, d) \<notin> set (records c)" for d
    using that assms
    by (auto simp: on_raw_reaction_add_def Let_def insert_or_replace_def split: if_splits)
  show ?thesis
    using on_raw_reaction_add_accept[OF assms(1) _ assms(2,3,4)]
      on_raw_reaction_remove_accept[OF assms] 3
    by blast
qed

theorem meditation_date_from_message_witness:
  "on_raw_reaction_add (new_cog default_settings [])
        \<lparr>bot_user = 1,
         fetched = Some \<lparr>author = 1, content = daily_message default_settings,
                         created_at = at_time 19000 8 0 0 0, reactions = []\<rparr>,
         clock = at_time 19002 9 0 0 0, remove_ok = True\<rparr>
        \<lparr>p_user_id = 42, p_emoji = ManLotus\<rparr>
     = (None, new_cog default_settings [(42, 19000)], [])
   \<and> get_meditation_date (at_time 19002 9 0 0 0) = 19002
   \<and> on_raw_reaction_add (new_cog default_settings [(42, 19000)])
        \<lparr>bot_user = 1,
         fetched = Some \<lparr>author = 1, content = daily_message default_settings,
                         created_at = at_time 19000 8 0 0 0, reactions = []\<rparr>,
         clock = at_time 19000 8 5 0 0, remove_ok = True\<rparr>
        \<lparr>p_user_id = 43, p_emoji = WomanLotus\<rparr>
     = (None, new_cog default_settings [(42, 19000), (43, 19000)], [])
   \<and> on_raw_reaction_remove (new_cog default_settings [(42, 19000), (43, 19000)])
        \<lparr>bot_user = 1,
         fetched = Some \<lparr>author = 1, content = daily_message default_settings,
                         created_at = at_time 19000 8 0 0 0, reactions = []\<rparr>,
         clock = at_time 19005 9 0 0 0, remove_ok = True\<rparr>
        \<lparr>p_user_id = 42, p_emoji = ManLotus\<rparr>
     = (None, new_cog default_settings [(43, 19000)], [])"
  using meditation_date_from_message[where c = "new_cog default_settings []"
      and env = "\<lparr>bot_user = 1,
         fetched = Some \<lparr>author = 1, content = daily_message default_settings,
                         created_at = at_time 19000 8 0 0 0, reactions = []\<rparr>,
         clock = at_time 19002 9 0 0 0, remove_ok = True\<rparr>"
      and p = "\<lparr>p_user_id = 42, p_emoji = ManLotus\<rparr>"
      and m = "\<lparr>author = 1, content = daily_message default_settings,
                         created_at = at_time 19000 8 0 0 0, reactions = []\<rparr>", THEN conjunct1]
    meditation_date_from_message[where c = "new_cog default_settings [(42, 19000)]"
      and env = "\<lparr>bot_user = 1,
         fetched = Some \<lparr>author = 1, content = daily_message default_settings,
                         created_at = at_time 19000 8 0 0 0, reactions = []\<rparr>,
         clock = at_time 19000 8 5 0 0, remove_ok = True\<rparr>"
      and p = "\<lparr>p_user_id = 43, p_emoji = WomanLotus\<rparr>"
      and m = "\<lparr>author = 1, content = daily_message default_settings,
                         created_at = at_time 19000 8 0 0 0, reactions = []\<rparr>", THEN conjunct1]
    meditation_date_from_message[where c = "new_cog default_settings [(42, 19000), (43, 19000)]"
      and env = "\<lparr>bot_user = 1,
         fetched = Some \<lparr>author = 1, content = daily_message default_settings,
                         created_at = at_time 19000 8 0 0 0, reactions = []\<rparr>,
         clock = at_time 19005 9 0 0 0, remove_ok = True\<rparr>"
      and p = "\<lparr>p_user_id = 42, p_emoji = ManLotus\<rparr>"
      and m = "\<lparr>author = 1, content = daily_message default_settings,
                         created_at = at_time 19000 8 0 0 0, reactions = []\<rparr>", THEN conjunct2, THEN conjunct1]
  by (simp add: insert_or_replace_def delete_record_def meditation_emojis_def
      get_meditation_date_def days_def new_cog_def time_defs)

section \<open>Reactions on old messages\<close>

text \<open>
  The guard of line 295 compares \<^verbatim>\<open>message_age.days\<close>, the whole days of the age, with 2.
  From 72 hours (259200 seconds) after the message was created, a check-in reaction is
  refused: no record is created and \<^verbatim>\<open>remove_reaction\<close> is called for the triggering
  reaction. Below 72 hours the check-in is recorded, also when the message is more than 2
  days old, which the comment of line 293 (\<^verbatim>\<open>more than 2 days old\<close>) asks to refuse.
\<close>

lemma on_raw_reaction_add_three_days:
  assumes "fetched env = Some m" "p_user_id p \<noteq> bot_user env" "author m = bot_user env"
    "content m = daily_message (settings c)" "p_emoji p \<in> set meditation_emojis"
    "seconds 259200 \<le> clock env - created_at m"
  shows "on_raw_reaction_add c env p =
           (if remove_ok env then (None, c, [RemoveReaction (p_emoji p) (p_user_id p)])
            else (Some Exception, c, []))"
proof -
  have "2 < days (clock env - created_at m)" using assms(6) by (simp add: days_gt_2)
  from on_raw_reaction_add_stale[OF assms(1-5) this] show ?thesis .
qed

lemma on_raw_reaction_add_under_three_days:
  assumes "fetched env = Some m" "p_user_id p \<noteq> bot_user env" "author m = bot_user env"
    "content m = daily_message (settings c)" "p_emoji p \<in> set meditation_emojis"
    "clock env - created_at m < seconds 259200"
  shows "on_raw_reaction_add c env p =
           (None,
            c\<lparr>records := insert_or_replace (records c)
                            (p_user_id p, get_meditation_date (created_at m))\<rparr>, [])"
proof -
  have "\<not> 2 < days (clock env - created_at m)" using assms(6) by (simp add: days_gt_2)
  then have "days (clock env - created_at m) \<le> 2" by simp
  from on_raw_reaction_add_accept[OF assms(1-5) this] show ?thesis .
qed

text \<open>
  C8. The claim asks that a check-in reaction on a prompt message older than 2 days be
  refused and the reaction removed, as the comment of line 293 does. The code departs from
  it: a message created at 12:00 on day 19000 and reacted to at 11:00 on day 19003 is 2 days
  and 23 hours old, more than 48 hours, three calendar dates and three meditation dates
  later, yet its \<^verbatim>\<open>days\<close> is 2, so the handler removes no reaction and records the
  check-in of user 42 under day 19000.
\<close>

theorem stale_reaction_accepted:
  "seconds 172800 < at_time 19003 11 0 0 0 - at_time 19000 12 0 0 0
   \<and> date_of (at_time 19003 11 0 0 0) - date_of (at_time 19000 12 0 0 0) = 3
   \<and> get_meditation_date (at_time 19003 11 0 0 0)
       - get_meditation_date (at_time 19000 12 0 0 0) = 3
   \<and> days (at_time 19003 11 0 0 0 - at_time 19000 12 0 0 0) = 2
   \<and> on_raw_reaction_add (new_cog default_settings [])
        \<lparr>bot_user = 1,
         fetched = Some \<lparr>author = 1, content = daily_message default_settings,
                         created_at = at_time 19000 12 0 0 0, reactions = []\<rparr>,
         clock = at_time 19003 11 0 0 0, remove_ok = True\<rparr>
        \<lparr>p_user_id = 42, p_emoji = ManLotus\<rparr>
     = (None, new_cog default_settings [(42, 19000)], [])"
  by (simp add: on_raw_reaction_add_def Let_def insert_or_replace_def meditation_emojis_def
      get_meditation_date_def days_def new_cog_def default_settings_def time_defs)

theorem stale_reaction_accepted_witness:
  "records (fst (snd (on_raw_reaction_add (new_cog default_settings [])
        \<lparr>bot_user = 1,
         fetched = Some \<lparr>author = 1, content = daily_message default_settings,
                         created_at = at_time 19000 12 0 0 0, reactions = []\<rparr>,
         clock = at_time 19003 11 0 0 0, remove_ok = True\<rparr>
        \<lparr>p_user_id = 42, p_emoji = ManLotus\<rparr>))) = [(42, 19000)]
   \<and> snd (snd (on_raw_reaction_add (new_cog default_settings [])
        \<lparr>bot_user = 1,
         fetched = Some \<lparr>author = 1, content = daily_message default_settings,
                         created_at = at_time 19000 12 0 0 0, reactions = []\<rparr>,
         clock = at_time 19003 11 0 0 0, remove_ok = True\<rparr>
        \<lparr>p_user_id = 42, p_emoji = ManLotus\<rparr>)) = []"
  using stale_reaction_accepted by (simp add: new_cog_def)

end
